theory Spec2Isabelle
  imports Complex_Main "HOL-Library.Product_Lexorder"
begin

section \<open>Values of the interpreter\<close>

text \<open>
  The library works on decoded JSON: dynamically typed values. A dict is an association
  list in insertion order (its keys are strings, as in a JSON object or a keyword
  argument list), a float is a real number (rounding, infinities and NaN are outside the
  model), a naive UTC datetime is its number of microseconds since the epoch.
\<close>

datatype pyval =
    PNone
  | PBool bool
  | PInt int
  | PFloat real
  | PStr string
  | PDateTime int
  | PTuple "pyval list"
  | PList "pyval list"
  | PDict "(string \<times> pyval) list"

section \<open>Exceptions\<close>

text \<open>
  The classes of \<^verbatim>\<open>exceptions.py\<close>, the classes of the interpreter and of the
  \<^verbatim>\<open>requests\<close> package that the handlers of \<^verbatim>\<open>LightAirQ.py\<close> name or that its
  operations raise. \<open>superclasses\<close> lists a class with all its base classes, so that
  \<open>except C\<close> is membership of \<open>C\<close> in that list.
\<close>

datatype exc_class =
    PyException | PyTypeError | PyValueError | PyLookupError | PyKeyError | PyIndexError
  | PyAttributeError | PyNameError | PyUnboundLocalError | PyOSError
  | JsonJSONDecodeError
  | ReqRequestException | ReqHTTPError | ReqConnectionError | ReqTimeout
  | ReqInvalidJSONError | ReqJSONDecodeError
  | LightAirQException
  | DistanceException | HaversineFormulaError
  | RequestException | SendRequestError | StatusCodeError | DecodingError
  | DataTransformationException | GetPostsError | SortPostsError | GetMeasurementError

fun superclasses :: "exc_class \<Rightarrow> exc_class list" where
  "superclasses PyException = [PyException]"
| "superclasses PyTypeError = [PyTypeError, PyException]"
| "superclasses PyValueError = [PyValueError, PyException]"
| "superclasses PyLookupError = [PyLookupError, PyException]"
| "superclasses PyKeyError = [PyKeyError, PyLookupError, PyException]"
| "superclasses PyIndexError = [PyIndexError, PyLookupError, PyException]"
| "superclasses PyAttributeError = [PyAttributeError, PyException]"
| "superclasses PyNameError = [PyNameError, PyException]"
| "superclasses PyUnboundLocalError = [PyUnboundLocalError, PyNameError, PyException]"
| "superclasses PyOSError = [PyOSError, PyException]"
| "superclasses JsonJSONDecodeError = [JsonJSONDecodeError, PyValueError, PyException]"
| "superclasses ReqRequestException = [ReqRequestException, PyOSError, PyException]"
| "superclasses ReqHTTPError = [ReqHTTPError, ReqRequestException, PyOSError, PyException]"
| "superclasses ReqConnectionError =
     [ReqConnectionError, ReqRequestException, PyOSError, PyException]"
| "superclasses ReqTimeout = [ReqTimeout, ReqRequestException, PyOSError, PyException]"
| "superclasses ReqInvalidJSONError =
     [ReqInvalidJSONError, ReqRequestException, PyOSError, PyException]"
| "superclasses ReqJSONDecodeError =
     [ReqJSONDecodeError, ReqInvalidJSONError, ReqRequestException, PyOSError,
      JsonJSONDecodeError, PyValueError, PyException]"
| "superclasses LightAirQException = [LightAirQException, PyException]"
| "superclasses DistanceException = [DistanceException, LightAirQException, PyException]"
| "superclasses HaversineFormulaError =
     [HaversineFormulaError, DistanceException, LightAirQException, PyException]"
| "superclasses RequestException = [RequestException, LightAirQException, PyException]"
| "superclasses SendRequestError =
     [SendRequestError, RequestException, LightAirQException, PyException]"
| "superclasses StatusCodeError =
     [StatusCodeError, RequestException, LightAirQException, PyException]"
| "superclasses DecodingError =
     [DecodingError, RequestException, LightAirQException, PyException]"
| "superclasses DataTransformationException =
     [DataTransformationException, LightAirQException, PyException]"
| "superclasses GetPostsError =
     [GetPostsError, DataTransformationException, LightAirQException, PyException]"
| "superclasses SortPostsError =
     [SortPostsError, DataTransformationException, LightAirQException, PyException]"
| "superclasses GetMeasurementError =
     [GetMeasurementError, DataTransformationException, LightAirQException, PyException]"

text \<open>
  An exception is its class and its message. The message of an f-string is kept as its
  parts, the literal text and the interpolated values, in order: what a message carries
  is then independent of how a value prints.
\<close>

datatype frag = Lit string | Val pyval

datatype exc = Err (exc_cls: exc_class) (exc_msg: "frag list")

definition isinstance :: "exc \<Rightarrow> exc_class \<Rightarrow> bool" where
  "isinstance e c = (c \<in> set (superclasses (exc_cls e)))"

definition bindE :: "exc + 'a \<Rightarrow> ('a \<Rightarrow> exc + 'b) \<Rightarrow> exc + 'b" where
  "bindE m f = (case m of Inl e \<Rightarrow> Inl e | Inr x \<Rightarrow> f x)"

text \<open>The constructors of \<^verbatim>\<open>exceptions.py\<close>, with the messages they build.\<close>

definition haversine_formula_error :: "pyval \<Rightarrow> pyval \<Rightarrow> exc" where
  "haversine_formula_error point1 point2 =
     Err HaversineFormulaError
       [Lit ''An error occurred when calculating the distance between points;\<newline>Coordinates: '',
        Val point1, Lit '' & '', Val point2]"

definition send_request_error :: "(string \<times> pyval) list \<Rightarrow> string \<Rightarrow> exc" where
  "send_request_error params url =
     Err SendRequestError
       [Lit ''An error occurred while sending the request;\<newline>Params: '', Val (PDict params),
        Lit ''\<newline>Url: '', Val (PStr url)]"

text \<open>
  In the next two messages the second string literal of the source has no \<^verbatim>\<open>f\<close>
  prefix: its braces are literal text and the response text is not interpolated.
\<close>

definition status_code_error ::
  "(string \<times> pyval) list \<Rightarrow> string \<Rightarrow> int \<Rightarrow> string \<Rightarrow> exc" where
  "status_code_error params url response_code response_text =
     Err StatusCodeError
       [Lit ''Invalid status code received;\<newline>Params: '', Val (PDict params),
        Lit ''\<newline>Url: '', Val (PStr url), Lit ''\<newline>Code: '', Val (PInt response_code),
        Lit ''\<newline>Text: {response_text}'']"

definition decoding_error ::
  "(string \<times> pyval) list \<Rightarrow> string \<Rightarrow> int \<Rightarrow> string \<Rightarrow> exc" where
  "decoding_error params url response_code response_text =
     Err DecodingError
       [Lit ''Couldn't decode the text into json;\<newline>Params: '', Val (PDict params),
        Lit ''\<newline>Url: '', Val (PStr url), Lit ''\<newline>Code: '', Val (PInt response_code),
        Lit ''\<newline>Text: {response_text}'']"

definition get_posts_error :: "pyval \<Rightarrow> exc" where
  "get_posts_error data =
     Err GetPostsError
       [Lit ''Failed to process data when requesting available posts;\<newline>Data: '', Val data]"

definition sort_posts_error :: "pyval \<Rightarrow> exc" where
  "sort_posts_error data =
     Err SortPostsError
       [Lit ''Data could not be processed when sorting by increasing the distance;\<newline>Data: '',
        Val data]"

definition get_measurement_error :: "pyval \<Rightarrow> exc" where
  "get_measurement_error data =
     Err GetMeasurementError
       [Lit ''Data could not be processed when receiving the last measurement from the post;\<newline>Data: '',
        Val data]"

section \<open>Operations of the interpreter\<close>

text \<open>
  Exceptions raised by the interpreter carry no message here, except \<open>KeyError\<close>, whose
  argument is the missing key.
\<close>

definition py_raise :: "exc_class \<Rightarrow> exc + 'a" where
  "py_raise c = Inl (Err c [])"

definition key_error :: "pyval \<Rightarrow> exc + 'a" where
  "key_error k = Inl (Err PyKeyError [Val k])"

fun truthy :: "pyval \<Rightarrow> bool" where
  "truthy PNone = False"
| "truthy (PBool b) = b"
| "truthy (PInt i) = (i \<noteq> 0)"
| "truthy (PFloat r) = (r \<noteq> 0)"
| "truthy (PStr s) = (s \<noteq> [])"
| "truthy (PDateTime t) = True"
| "truthy (PTuple xs) = (xs \<noteq> [])"
| "truthy (PList xs) = (xs \<noteq> [])"
| "truthy (PDict d) = (d \<noteq> [])"

text \<open>\<open>d[k] = v\<close> on a dict: an existing key keeps its place, a new key goes last.\<close>

fun dict_set :: "string \<Rightarrow> pyval \<Rightarrow> (string \<times> pyval) list \<Rightarrow> (string \<times> pyval) list" where
  "dict_set k v [] = [(k, v)]"
| "dict_set k v ((k', v') # d) = (if k' = k then (k, v) # d else (k', v') # dict_set k v d)"

definition dict_del :: "string \<Rightarrow> (string \<times> pyval) list \<Rightarrow> (string \<times> pyval) list" where
  "dict_del k d = filter (\<lambda>kv. fst kv \<noteq> k) d"

text \<open>Sequence indexing by an integer: negative indices count from the end.\<close>

definition seq_index :: "'a list \<Rightarrow> int \<Rightarrow> exc + 'a" where
  "seq_index xs i =
     (if 0 \<le> i \<and> i < int (length xs) then Inr (xs ! nat i)
      else if i < 0 \<and> - int (length xs) \<le> i then Inr (xs ! nat (int (length xs) + i))
      else py_raise PyIndexError)"

text \<open>\<open>obj[i]\<close> for an integer \<open>i\<close>.\<close>

fun getitem_int :: "pyval \<Rightarrow> int \<Rightarrow> exc + pyval" where
  "getitem_int (PList xs) i = seq_index xs i"
| "getitem_int (PTuple xs) i = seq_index xs i"
| "getitem_int (PStr s) i = bindE (seq_index s i) (\<lambda>c. Inr (PStr [c]))"
| "getitem_int (PDict d) i = key_error (PInt i)"
| "getitem_int v i = py_raise PyTypeError"

text \<open>\<open>obj[k]\<close> for a string \<open>k\<close>.\<close>

fun getitem_str :: "pyval \<Rightarrow> string \<Rightarrow> exc + pyval" where
  "getitem_str (PDict d) k =
     (case map_of d k of None \<Rightarrow> key_error (PStr k) | Some v \<Rightarrow> Inr v)"
| "getitem_str v k = py_raise PyTypeError"

text \<open>
  \<open>obj.pop(k)\<close> for a string \<open>k\<close>: the value and the dict without the key. A list has
  \<open>pop\<close>, which wants an integer; the other values have no such attribute.
\<close>

fun pop_str :: "pyval \<Rightarrow> string \<Rightarrow> exc + (pyval \<times> (string \<times> pyval) list)" where
  "pop_str (PDict d) k =
     (case map_of d k of None \<Rightarrow> key_error (PStr k) | Some v \<Rightarrow> Inr (v, dict_del k d))"
| "pop_str (PList xs) k = py_raise PyTypeError"
| "pop_str v k = py_raise PyAttributeError"

text \<open>\<open>obj.items()\<close>.\<close>

fun items :: "pyval \<Rightarrow> exc + (string \<times> pyval) list" where
  "items (PDict d) = Inr d"
| "items v = py_raise PyAttributeError"

fun is_substring :: "string \<Rightarrow> string \<Rightarrow> bool" where
  "is_substring xs [] = (xs = [])"
| "is_substring xs (y # ys) = (take (length xs) (y # ys) = xs \<or> is_substring xs ys)"

text \<open>\<open>k in obj\<close> for a string \<open>k\<close>.\<close>

fun contains_str :: "pyval \<Rightarrow> string \<Rightarrow> exc + bool" where
  "contains_str (PDict d) k = Inr (k \<in> set (map fst d))"
| "contains_str (PList xs) k = Inr (PStr k \<in> set xs)"
| "contains_str (PTuple xs) k = Inr (PStr k \<in> set xs)"
| "contains_str (PStr s) k = Inr (is_substring k s)"
| "contains_str v k = py_raise PyTypeError"

text \<open>
  Iterating a value with \<open>for\<close>: the elements of a list or tuple, the keys of a dict, the
  characters of a string; other values are not iterable.
\<close>

fun iterate :: "pyval \<Rightarrow> exc + pyval list" where
  "iterate (PList xs) = Inr xs"
| "iterate (PTuple xs) = Inr xs"
| "iterate (PDict d) = Inr (map (\<lambda>kv. PStr (fst kv)) d)"
| "iterate (PStr s) = Inr (map (\<lambda>c. PStr [c]) s)"
| "iterate v = py_raise PyTypeError"

section \<open>The math module\<close>

text \<open>The conversion of an argument of a \<open>math\<close> function to a float.\<close>

fun to_float :: "pyval \<Rightarrow> exc + real" where
  "to_float (PFloat r) = Inr r"
| "to_float (PInt i) = Inr (real_of_int i)"
| "to_float (PBool b) = Inr (if b then 1 else 0)"
| "to_float v = py_raise PyTypeError"

definition radians :: "pyval \<Rightarrow> exc + real" where
  "radians v = bindE (to_float v) (\<lambda>x. Inr (x * (pi / 180)))"

definition math_sqrt :: "real \<Rightarrow> exc + real" where
  "math_sqrt x = (if x < 0 then py_raise PyValueError else Inr (sqrt x))"

definition math_asin :: "real \<Rightarrow> exc + real" where
  "math_asin x = (if x < - 1 \<or> 1 < x then py_raise PyValueError else Inr (arcsin x))"

definition math_pow :: "real \<Rightarrow> nat \<Rightarrow> real" where
  "math_pow x n = x ^ n"

section \<open>The distance of two points\<close>

definition haversine_body :: "pyval \<Rightarrow> pyval \<Rightarrow> exc + real" where
  "haversine_body point1 point2 =
     bindE (getitem_int point1 0) (\<lambda>a.
     bindE (radians a) (\<lambda>latitude1.
     bindE (getitem_int point1 1) (\<lambda>b.
     bindE (radians b) (\<lambda>longitude1.
     bindE (getitem_int point2 0) (\<lambda>c.
     bindE (radians c) (\<lambda>latitude2.
     bindE (getitem_int point2 1) (\<lambda>d.
     bindE (radians d) (\<lambda>longitude2.
       let dlat = latitude2 - latitude1;
           dlon = longitude2 - longitude1;
           hav = math_pow (sin (dlat / 2)) 2
                 + cos latitude1 * cos latitude2 * math_pow (sin (dlon / 2)) 2
       in bindE (math_sqrt hav) (\<lambda>s.
          bindE (math_asin s) (\<lambda>t. Inr (6371 * 2 * t)))))))))))"

definition haversine :: "pyval \<Rightarrow> pyval \<Rightarrow> exc + real" where
  "haversine point1 point2 =
     (case haversine_body point1 point2 of
        Inr d \<Rightarrow> Inr d
      | Inl err \<Rightarrow>
          if isinstance err PyTypeError \<or> isinstance err PyValueError
          then Inl (haversine_formula_error point1 point2)
          else Inl err)"


text \<open>
  The formula in the words of the specification, on coordinates in degrees: both points to
  radians, \<open>hav = sin\<^sup>2(\<Delta>lat/2) + cos(lat1) \<cdot> cos(lat2) \<cdot> sin\<^sup>2(\<Delta>lon/2)\<close>, the distance
  \<open>2 \<cdot> 6371 \<cdot> asin(\<surd>hav)\<close>.
\<close>

definition haversine_formula :: "real \<Rightarrow> real \<Rightarrow> real \<Rightarrow> real \<Rightarrow> real" where
  "haversine_formula lat1_deg lon1_deg lat2_deg lon2_deg =
     (let lat1 = lat1_deg * pi / 180; lon1 = lon1_deg * pi / 180;
          lat2 = lat2_deg * pi / 180; lon2 = lon2_deg * pi / 180;
          hav = (sin ((lat2 - lat1) / 2))\<^sup>2 + cos lat1 * cos lat2 * (sin ((lon2 - lon1) / 2))\<^sup>2
      in 2 * 6371 * arcsin (sqrt hav))"

section \<open>The client and its requests\<close>

definition DEFAULT_HOST :: string where
  "DEFAULT_HOST = ''https://api.cityscreen.io''"

definition POSTS_URL :: string where
  "POSTS_URL = ''harvester/v2/Posts''"

definition MEASUREMENTS_URL :: string where
  "MEASUREMENTS_URL = ''harvester/v2/Posts/measurements''"

definition TIMEOUT :: int where
  "TIMEOUT = 10"

record LightAirQ =
  host_url :: string
  timeout :: int

text \<open>
  The HTTP session is outside the library. What one \<open>session.get\<close> does is an input of
  the model: it raises, or it returns a response, of which the library reads the status
  code, the text, and the decoded body (\<open>None\<close> when the body is not valid JSON).
\<close>

record response =
  status_code :: int
  text_body :: string
  json_body :: "pyval option"

datatype get_result = GetRaises exc | GetReturns response

definition raise_for_status :: "response \<Rightarrow> exc + unit" where
  "raise_for_status r =
     (if 400 \<le> status_code r \<and> status_code r < 600 then py_raise ReqHTTPError else Inr ())"

definition json :: "response \<Rightarrow> exc + pyval" where
  "json r = (case json_body r of None \<Rightarrow> py_raise ReqJSONDecodeError | Some v \<Rightarrow> Inr v)"

definition make_request_try :: "get_result \<Rightarrow> exc + pyval" where
  "make_request_try got =
     (case got of
        GetRaises err \<Rightarrow> Inl err
      | GetReturns response \<Rightarrow>
          bindE (raise_for_status response) (\<lambda>u.
          bindE (json response) (\<lambda>response_json.
            if \<not> truthy response_json then py_raise ReqHTTPError else Inr response_json)))"

text \<open>
  The handlers in the order of the source. A handler that reads \<open>response\<close> when
  \<open>session.get\<close> itself raised finds the variable unbound.
\<close>

definition make_request ::
  "LightAirQ \<Rightarrow> get_result \<Rightarrow> string \<Rightarrow> (string \<times> pyval) list \<Rightarrow> exc + pyval" where
  "make_request self got method_url kwargs =
     (let params = kwargs;
          url = host_url self @ ''/'' @ method_url
      in case make_request_try got of
           Inr response_json \<Rightarrow> Inr response_json
         | Inl err \<Rightarrow>
             if isinstance err ReqHTTPError then
               (case got of
                  GetReturns response \<Rightarrow>
                    Inl (status_code_error params url (status_code response) (text_body response))
                | GetRaises e \<Rightarrow> py_raise PyUnboundLocalError)
             else if isinstance err ReqRequestException then Inl (send_request_error params url)
             else if isinstance err ReqJSONDecodeError then
               (case got of
                  GetReturns response \<Rightarrow>
                    Inl (decoding_error params url (status_code response) (text_body response))
                | GetRaises e \<Rightarrow> py_raise PyUnboundLocalError)
             else Inl err)"

section \<open>The available posts\<close>

text \<open>
  The loops mutate the decoded records in place; the model returns the records as they
  are when the loop ends or raises.
\<close>

fun flatten_geo :: "(string \<times> pyval) list \<Rightarrow> (string \<times> pyval) list \<Rightarrow> (string \<times> pyval) list" where
  "flatten_geo [] post = post"
| "flatten_geo ((dict_key, dict_value) # geo) post = flatten_geo geo (dict_set dict_key dict_value post)"

definition flatten_post :: "pyval \<Rightarrow> pyval \<times> exc option" where
  "flatten_post post =
     (case pop_str post ''geo'' of
        Inl err \<Rightarrow> (post, Some err)
      | Inr (geo, rest) \<Rightarrow>
          (case items geo of
             Inl err \<Rightarrow> (PDict rest, Some err)
           | Inr g \<Rightarrow> (PDict (flatten_geo g rest), None)))"

fun flatten_posts :: "pyval list \<Rightarrow> pyval list \<times> exc option" where
  "flatten_posts [] = ([], None)"
| "flatten_posts (post # rest) =
     (case flatten_post post of
        (post', Some err) \<Rightarrow> (post' # rest, Some err)
      | (post', None) \<Rightarrow> (case flatten_posts rest of (rest', r) \<Rightarrow> (post' # rest', r)))"

definition flatten_all :: "pyval \<Rightarrow> pyval \<times> exc option" where
  "flatten_all posts =
     (case posts of
        PList xs \<Rightarrow> (case flatten_posts xs of (xs', r) \<Rightarrow> (PList xs', r))
      | PTuple xs \<Rightarrow> (case flatten_posts xs of (xs', r) \<Rightarrow> (PTuple xs', r))
      | _ \<Rightarrow> (case iterate posts of
                Inl err \<Rightarrow> (posts, Some err)
              | Inr ys \<Rightarrow> (posts, snd (flatten_posts ys))))"

definition get_available_posts_except :: "exc \<Rightarrow> pyval option \<Rightarrow> exc + pyval" where
  "get_available_posts_except err posts =
     (if isinstance err RequestException then Inl err
      else if isinstance err PyTypeError \<or> isinstance err PyAttributeError
              \<or> isinstance err PyKeyError then
        (case posts of
           None \<Rightarrow> py_raise PyUnboundLocalError
         | Some p \<Rightarrow> Inl (get_posts_error p))
      else Inl err)"

definition get_available_posts :: "LightAirQ \<Rightarrow> get_result \<Rightarrow> exc + pyval" where
  "get_available_posts self got =
     (case make_request self got POSTS_URL [] of
        Inl err \<Rightarrow> get_available_posts_except err None
      | Inr posts \<Rightarrow>
          (case flatten_all posts of
             (posts', None) \<Rightarrow> Inr posts'
           | (posts', Some err) \<Rightarrow> get_available_posts_except err (Some posts')))"

section \<open>Ranking the posts by distance\<close>

text \<open>\<open>obj[k] = v\<close> for a string \<open>k\<close>.\<close>

fun setitem_str :: "pyval \<Rightarrow> string \<Rightarrow> pyval \<Rightarrow> exc + pyval" where
  "setitem_str (PDict d) k v = Inr (PDict (dict_set k v d))"
| "setitem_str obj k v = py_raise PyTypeError"

definition post_distance :: "pyval \<Rightarrow> pyval \<Rightarrow> exc + real" where
  "post_distance reference_point post =
     bindE (getitem_str post ''latitude'') (\<lambda>latitude.
     bindE (getitem_str post ''longitude'') (\<lambda>longitude.
       haversine reference_point (PTuple [latitude, longitude])))"

text \<open>
  The body of the \<open>for\<close> loop on one post: the distance, and the post with the distance
  stored in it.
\<close>

definition distance_step :: "pyval \<Rightarrow> pyval \<Rightarrow> exc + (real \<times> pyval)" where
  "distance_step reference_point post =
     bindE (post_distance reference_point post) (\<lambda>distance.
     bindE (setitem_str post ''distance'' (PFloat distance)) (\<lambda>post'.
       Inr (distance, post')))"

function distances_loop ::
  "pyval \<Rightarrow> pyval list \<Rightarrow> nat \<Rightarrow> (real \<times> nat) list \<Rightarrow> pyval list \<times> (exc + (real \<times> nat) list)" where
  "distances_loop reference_point posts index distances =
     (if index < length posts then
        (case distance_step reference_point (posts ! index) of
           Inl err \<Rightarrow> (posts, Inl err)
         | Inr (distance, post') \<Rightarrow>
             distances_loop reference_point (posts[index := post']) (Suc index)
               (distances @ [(distance, index)]))
      else (posts, Inr distances))"
  by pat_completeness auto
termination
  by (relation "measure (\<lambda>(r, posts, index, distances). length posts - index)") auto

text \<open>
  The list comprehension: \<open>distance and posts[index]["isOnline"]\<close> reads the post only
  when the distance is not zero.
\<close>

fun select_posts :: "pyval list \<Rightarrow> (real \<times> nat) list \<Rightarrow> exc + pyval list" where
  "select_posts posts [] = Inr []"
| "select_posts posts ((distance, index) # rest) =
     bindE (if distance \<noteq> 0
            then bindE (seq_index posts (int index)) (\<lambda>post.
                 bindE (getitem_str post ''isOnline'') (\<lambda>online. Inr (truthy online)))
            else Inr False) (\<lambda>keep.
       if keep
       then bindE (seq_index posts (int index)) (\<lambda>post.
            bindE (select_posts posts rest) (\<lambda>out. Inr (post # out)))
       else select_posts posts rest)"

definition sort_posts_try :: "pyval list \<Rightarrow> pyval \<Rightarrow> pyval list \<times> (exc + pyval list)" where
  "sort_posts_try posts reference_point =
     (case distances_loop reference_point posts 0 [] of
        (posts', Inl err) \<Rightarrow> (posts', Inl err)
      | (posts', Inr distances) \<Rightarrow> (posts', select_posts posts' (sort distances)))"

text \<open>The result is the list of posts as the call leaves it, and what the call returns or raises.\<close>

definition sort_posts_in_order_of_increasing_distance ::
  "pyval list \<Rightarrow> pyval \<Rightarrow> pyval list \<times> (exc + pyval list)" where
  "sort_posts_in_order_of_increasing_distance posts reference_point =
     (case sort_posts_try posts reference_point of
        (posts', Inr out) \<Rightarrow> (posts', Inr out)
      | (posts', Inl err) \<Rightarrow>
          if isinstance err DistanceException then (posts', Inl err)
          else if isinstance err PyAttributeError \<or> isinstance err PyKeyError
          then (posts', Inl (sort_posts_error (PList posts')))
          else (posts', Inl err))"

section \<open>The last measurement of a post\<close>

text \<open>
  How a value prints inside an f-string: a string as itself, \<open>None\<close>, a bool and an int as
  the interpreter writes them; the text of a float, a datetime or a container is the
  interpreter's and is taken as the parameter \<open>fmt\<close>.
\<close>

fun digits10 :: "nat \<Rightarrow> string" where
  "digits10 n =
     (if n < 10 then [''0123456789'' ! n]
      else digits10 (n div 10) @ [''0123456789'' ! (n mod 10)])"

definition py_format :: "(pyval \<Rightarrow> string) \<Rightarrow> pyval \<Rightarrow> string" where
  "py_format fmt v =
     (case v of
        PStr s \<Rightarrow> s
      | PNone \<Rightarrow> ''None''
      | PBool b \<Rightarrow> (if b then ''True'' else ''False'')
      | PInt i \<Rightarrow> (if i < 0 then CHR ''-'' # digits10 (nat (- i)) else digits10 (nat i))
      | _ \<Rightarrow> fmt v)"

text \<open>
  The current UTC time, in microseconds, cut down to a multiple of five minutes, minus
  five minutes.
\<close>

definition date_gt :: "int \<Rightarrow> int" where
  "date_gt now = now - now mod 300000000 - 300000000"

text \<open>The loop over \<open>measurements_data.items()\<close>, on the dict as it is being rewritten.\<close>

fun annotate_units ::
  "(pyval \<Rightarrow> string) \<Rightarrow> pyval \<Rightarrow> (string \<times> pyval) list \<Rightarrow> (string \<times> pyval) list
   \<Rightarrow> (string \<times> pyval) list \<times> exc option" where
  "annotate_units fmt units [] data = (data, None)"
| "annotate_units fmt units ((dict_key, dict_value) # rest) data =
     (case bindE (contains_str units dict_key) (\<lambda>present.
             if present
             then bindE (getitem_str units dict_key) (\<lambda>unit.
                    Inr (dict_set dict_key
                           (PStr (py_format fmt dict_value @ '' '' @ py_format fmt unit)) data))
             else Inr data) of
        Inl err \<Rightarrow> (data, Some err)
      | Inr data' \<Rightarrow> annotate_units fmt units rest data')"

text \<open>
  \<open>measurements_data\<close> is the last element of \<open>measurements["data"]\<close> itself, not a copy:
  the payload seen afterwards through \<open>measurements\<close> has that element rewritten.
\<close>

definition set_last_data :: "pyval \<Rightarrow> (string \<times> pyval) list \<Rightarrow> pyval" where
  "set_last_data measurements d =
     (case measurements of
        PDict m \<Rightarrow>
          (case map_of m ''data'' of
             Some (PList xs) \<Rightarrow> PDict (dict_set ''data'' (PList (butlast xs @ [PDict d])) m)
           | Some (PTuple xs) \<Rightarrow> PDict (dict_set ''data'' (PTuple (butlast xs @ [PDict d])) m)
           | _ \<Rightarrow> measurements)
      | _ \<Rightarrow> measurements)"

definition reshape_measurement :: "(pyval \<Rightarrow> string) \<Rightarrow> pyval \<Rightarrow> pyval \<times> (exc + pyval)" where
  "reshape_measurement fmt measurements =
     (case bindE (getitem_str measurements ''meta'') (\<lambda>meta.
           bindE (getitem_str meta ''units'') (\<lambda>measurements_units.
           bindE (getitem_str measurements ''data'') (\<lambda>data.
           bindE (getitem_int data (- 1)) (\<lambda>measurements_data.
           bindE (pop_str measurements_data ''aqi'') (\<lambda>popped.
             Inr (measurements_units, popped)))))) of
        Inl err \<Rightarrow> (measurements, Inl err)
      | Inr (measurements_units, aqi, d1) \<Rightarrow>
          (case bindE (getitem_str aqi ''cityairAqi'') (\<lambda>c. getitem_str c ''value'') of
             Inl err \<Rightarrow> (set_last_data measurements d1, Inl err)
           | Inr v \<Rightarrow>
               (let d2 = dict_set ''cityairAqi'' v d1
                in case annotate_units fmt measurements_units d2 d2 of
                     (d3, Some err) \<Rightarrow> (set_last_data measurements d3, Inl err)
                   | (d3, None) \<Rightarrow> (set_last_data measurements d3, Inr (PDict d3)))))"

definition get_last_measurement_except :: "exc \<Rightarrow> pyval option \<Rightarrow> exc + pyval" where
  "get_last_measurement_except err measurements =
     (if isinstance err RequestException then Inl err
      else if isinstance err PyAttributeError \<or> isinstance err PyIndexError
              \<or> isinstance err PyKeyError then
        (case measurements of
           None \<Rightarrow> py_raise PyUnboundLocalError
         | Some m \<Rightarrow> Inl (get_measurement_error m))
      else Inl err)"

definition measurement_params :: "int \<Rightarrow> pyval \<Rightarrow> (string \<times> pyval) list" where
  "measurement_params now post_id =
     [(''ids'', post_id), (''interval'', PStr ''5m''), (''date__gt'', PDateTime (date_gt now)),
      (''limit'', PInt 2), (''measure_scheme'', PStr ''c_mmhg_mg'')]"

definition get_last_measurement_from_post ::
  "LightAirQ \<Rightarrow> int \<Rightarrow> get_result \<Rightarrow> (pyval \<Rightarrow> string) \<Rightarrow> pyval \<Rightarrow> exc + pyval" where
  "get_last_measurement_from_post self now got fmt post_id =
     (case make_request self got MEASUREMENTS_URL (measurement_params now post_id) of
        Inl err \<Rightarrow> get_last_measurement_except err None
      | Inr measurements \<Rightarrow>
          (case reshape_measurement fmt measurements of
             (m', Inr r) \<Rightarrow> Inr r
           | (m', Inl err) \<Rightarrow> get_last_measurement_except err (Some m')))"

section \<open>The distance: range of the haversine term, bounds of \<open>pi\<close>\<close>




lemma hav_eq:
  fixes a b L :: real
  shows "(sin ((b - a) / 2))\<^sup>2 + cos a * cos b * (sin (L / 2))\<^sup>2
         = (1 - (sin a * sin b + cos a * cos b * cos L)) / 2"
proof -
  have s: "(sin (t / 2))\<^sup>2 = (1 - cos t) / 2" for t :: real
    using cos_double_sin[of "t / 2"] by simp
  show ?thesis
    by (simp add: s cos_diff field_simps)
qed

lemma trig_dot_bound:
  fixes a b L :: real
  shows "\<bar>sin a * sin b + cos a * cos b * cos L\<bar> \<le> 1"
proof -
  have p: "\<bar>u * v\<bar> \<le> (u\<^sup>2 + v\<^sup>2) / 2" for u v :: real
  proof -
    have "0 \<le> (\<bar>u\<bar> - \<bar>v\<bar>)\<^sup>2" by simp
    then show ?thesis by (simp add: power2_diff abs_mult)
  qed
  have c: "\<bar>cos a * cos b * cos L\<bar> \<le> \<bar>cos a * cos b\<bar>"
  proof -
    have "\<bar>cos a * cos b\<bar> * \<bar>cos L\<bar> \<le> \<bar>cos a * cos b\<bar> * 1"
      by (rule mult_left_mono) simp_all
    then show ?thesis by (simp add: abs_mult)
  qed
  have "\<bar>sin a * sin b + cos a * cos b * cos L\<bar> \<le> \<bar>sin a * sin b\<bar> + \<bar>cos a * cos b\<bar>"
    using c by linarith
  also have "\<dots> \<le> ((sin a)\<^sup>2 + (sin b)\<^sup>2) / 2 + ((cos a)\<^sup>2 + (cos b)\<^sup>2) / 2"
    using p[of "sin a" "sin b"] p[of "cos a" "cos b"] by linarith
  also have "\<dots> = 1"
  proof -
    have g: "u + v = 1 \<Longrightarrow> w + z = 1 \<Longrightarrow> (u + w) / 2 + (v + z) / 2 = 1" for u v w z :: real
      by (simp add: field_simps)
    show ?thesis
      by (rule g[OF sin_cos_squared_add[of a] sin_cos_squared_add[of b]])
  qed
  finally show ?thesis .
qed

lemma hav_bounds:
  fixes a b L :: real
  defines "h \<equiv> (sin ((b - a) / 2))\<^sup>2 + cos a * cos b * (sin (L / 2))\<^sup>2"
  shows "0 \<le> h" and "h \<le> 1"
  using trig_dot_bound[of a b L] unfolding h_def hav_eq by simp_all


lemma haversine_body_numeric:
  assumes "to_float a1 = Inr x1" "to_float b1 = Inr y1"
      and "to_float a2 = Inr x2" "to_float b2 = Inr y2"
  shows "haversine_body (PTuple [a1, b1]) (PTuple [a2, b2]) =
         Inr (6371 * 2 * arcsin (sqrt ((sin ((x2 * (pi / 180) - x1 * (pi / 180)) / 2))\<^sup>2
              + cos (x1 * (pi / 180)) * cos (x2 * (pi / 180))
                * (sin ((y2 * (pi / 180) - y1 * (pi / 180)) / 2))\<^sup>2)))"
proof -
  let ?h = "(sin ((x2 * (pi / 180) - x1 * (pi / 180)) / 2))\<^sup>2
              + cos (x1 * (pi / 180)) * cos (x2 * (pi / 180))
                * (sin ((y2 * (pi / 180) - y1 * (pi / 180)) / 2))\<^sup>2"
  have h0: "0 \<le> ?h" and h1: "?h \<le> 1"
    by (rule hav_bounds)+
  have s0: "\<not> sqrt ?h < - 1"
  proof -
    have "0 \<le> sqrt ?h" using h0 by simp
    then show ?thesis by linarith
  qed
  have s1: "\<not> 1 < sqrt ?h"
  proof -
    have "sqrt ?h \<le> 1" using h1 by simp
    then show ?thesis by linarith
  qed
  have n0: "\<not> ?h < 0" using h0 by linarith
  show ?thesis
    using n0 s0 s1
    by (simp add: haversine_body_def bindE_def seq_index_def radians_def assms
        math_sqrt_def math_asin_def math_pow_def Let_def)
qed


lemma haversine_numeric:
  assumes "to_float a1 = Inr x1" "to_float b1 = Inr y1"
      and "to_float a2 = Inr x2" "to_float b2 = Inr y2"
  shows "haversine (PTuple [a1, b1]) (PTuple [a2, b2]) = Inr (haversine_formula x1 y1 x2 y2)"
  by (simp add: haversine_def haversine_body_numeric[OF assms] haversine_formula_def Let_def)

lemma haversine_formula_sym: "haversine_formula x1 y1 x2 y2 = haversine_formula x2 y2 x1 y1"
proof -
  have m: "(sin ((u - v) / 2))\<^sup>2 = (sin ((v - u) / 2))\<^sup>2" for u v :: real
  proof -
    have "(u - v) / 2 = - ((v - u) / 2)" by (simp add: field_simps)
    then have "sin ((u - v) / 2) = - sin ((v - u) / 2)" by (metis sin_minus)
    then show ?thesis by simp
  qed
  show ?thesis
    unfolding haversine_formula_def Let_def
    using m[of "x2 * pi / 180" "x1 * pi / 180"] m[of "y2 * pi / 180" "y1 * pi / 180"]
    by (simp add: mult.commute)
qed

lemma haversine_formula_self: "haversine_formula x y x y = 0"
  by (simp add: haversine_formula_def)





text \<open>
  Claim C6. On numeric coordinates the distance is symmetric, and the distance of a point
  to itself is 0.
\<close>

theorem haversine_symmetric_and_zero_on_self:
  assumes "to_float a1 = Inr x1" "to_float b1 = Inr y1"
      and "to_float a2 = Inr x2" "to_float b2 = Inr y2"
  shows "haversine (PTuple [a1, b1]) (PTuple [a2, b2]) = haversine (PTuple [a2, b2]) (PTuple [a1, b1])
         \<and> haversine (PTuple [a1, b1]) (PTuple [a1, b1]) = Inr 0"
  using haversine_numeric[OF assms] haversine_numeric[OF assms(3,4,1,2)]
    haversine_numeric[OF assms(1,2,1,2)] haversine_formula_sym[of x1 y1 x2 y2]
  by (simp add: haversine_formula_self)

theorem haversine_symmetric_and_zero_on_self_witness:
  "haversine (PTuple [PInt 10, PFloat 20]) (PTuple [PInt 0, PInt 180])
     = haversine (PTuple [PInt 0, PInt 180]) (PTuple [PInt 10, PFloat 20])
   \<and> haversine (PTuple [PInt 10, PFloat 20]) (PTuple [PInt 10, PFloat 20]) = Inr 0"
  using haversine_symmetric_and_zero_on_self[of "PInt 10" 10 "PFloat 20" 20 "PInt 0" 0 "PInt 180" 180]
  by simp

section \<open>The ranking loop\<close>

text \<open>The equation of the loop is unfolded by hand, at the index it is used for.\<close>

declare distances_loop.simps [simp del]

lemma map_of_dict_set: "map_of (dict_set k v d) k' = (if k' = k then Some v else map_of d k')"
  by (induction d) auto

lemma distance_step_Inr:
  "distance_step ref post = Inr (d, post') \<longleftrightarrow>
   (\<exists>m. post = PDict m \<and> post_distance ref post = Inr d
        \<and> post' = PDict (dict_set ''distance'' (PFloat d) m))"
  by (cases post)
     (auto simp: distance_step_def post_distance_def bindE_def py_raise_def split: sum.splits)

lemma distance_step_Inl:
  "distance_step ref post = Inl e \<longleftrightarrow> post_distance ref post = Inl e"
  by (cases post)
     (auto simp: distance_step_def post_distance_def bindE_def py_raise_def split: sum.splits)



lemma distances_loop_frame:
  "distances_loop ref posts index acc = (posts', r) \<Longrightarrow> index \<le> length posts \<Longrightarrow>
   length posts' = length posts
   \<and> (\<exists>k. index \<le> k \<and> k \<le> length posts
        \<and> (\<forall>i. index \<le> i \<and> i < k \<longrightarrow>
              distance_step ref (posts ! i) = Inr (projr (post_distance ref (posts ! i)), posts' ! i))
        \<and> (\<forall>i. (i < index \<or> k \<le> i) \<and> i < length posts \<longrightarrow> posts' ! i = posts ! i)
        \<and> (case r of Inr ds \<Rightarrow> k = length posts
                     | Inl e \<Rightarrow> k < length posts \<and> post_distance ref (posts ! k) = Inl e))"
proof (induction ref posts index acc rule: distances_loop.induct)
  case (1 ref posts index acc)
  show ?case
  proof (cases "index < length posts")
    case False
    with "1.prems" have "posts' = posts" "\<exists>ds. r = Inr ds" "index = length posts"
      by (auto simp: distances_loop.simps[of ref posts index acc])
    then show ?thesis by auto
  next
    case True
    show ?thesis
    proof (cases "distance_step ref (posts ! index)")
      case (Inl e)
      with "1.prems" True have "posts' = posts" "r = Inl e"
        by (auto simp: distances_loop.simps[of ref posts index acc])
      moreover have "post_distance ref (posts ! index) = Inl e"
        using Inl by (simp add: distance_step_Inl)
      ultimately show ?thesis using True by auto
    next
      case (Inr x)
      obtain d p where x: "x = (d, p)" by (cases x)
      have step: "distance_step ref (posts ! index) = Inr (d, p)" using Inr x by simp
      then have pd: "post_distance ref (posts ! index) = Inr d"
        by (auto simp: distance_step_Inr)
      have rec: "distances_loop ref (posts[index := p]) (Suc index) (acc @ [(d, index)]) = (posts', r)"
        using "1.prems"(1) True step by (simp add: distances_loop.simps[of ref posts index acc])
      have "Suc index \<le> length (posts[index := p])" using True by simp
      note IH = "1.IH"[OF True step refl rec this]
      let ?q = "posts[index := p]"
      from IH obtain k where k0: "Suc index \<le> k" "k \<le> length ?q"
        and ok0: "\<forall>i. Suc index \<le> i \<and> i < k \<longrightarrow>
              distance_step ref (?q ! i) = Inr (projr (post_distance ref (?q ! i)), posts' ! i)"
        and same0: "\<forall>i. (i < Suc index \<or> k \<le> i) \<and> i < length ?q \<longrightarrow> posts' ! i = ?q ! i"
        and res0: "(case r of Inr ds \<Rightarrow> k = length ?q
                     | Inl e \<Rightarrow> k < length ?q \<and> post_distance ref (?q ! k) = Inl e)"
        by blast
      have k: "Suc index \<le> k" "k \<le> length posts" using k0 by simp_all
      have ok: "\<forall>i. Suc index \<le> i \<and> i < k \<longrightarrow>
              distance_step ref (posts ! i) = Inr (projr (post_distance ref (posts ! i)), posts' ! i)"
        using ok0 by auto
      have same: "\<forall>i. (i < Suc index \<or> k \<le> i) \<and> i < length posts \<longrightarrow> posts' ! i = ?q ! i"
        using same0 by simp
      have res: "(case r of Inr ds \<Rightarrow> k = length posts
                     | Inl e \<Rightarrow> k < length posts \<and> post_distance ref (?q ! k) = Inl e)"
        using res0 by (cases r) auto
      have len: "length posts' = length posts" using IH by simp
      have keep: "posts' ! index = p" using same True by simp
      have ok': "distance_step ref (posts ! i) = Inr (projr (post_distance ref (posts ! i)), posts' ! i)"
        if "index \<le> i" "i < k" for i
      proof (cases "i = index")
        case True
        then show ?thesis using step pd keep by simp
      next
        case False
        then have "Suc index \<le> i" using that by simp
        then show ?thesis using ok that(2) by simp
      qed
      have same': "posts' ! i = posts ! i" if "i < index \<or> k \<le> i" "i < length posts" for i
      proof -
        have "i \<noteq> index" using that k by auto
        moreover have "posts' ! i = posts[index := p] ! i" using same that by auto
        ultimately show ?thesis by simp
      qed
      have res': "(case r of Inr ds \<Rightarrow> k = length posts
                     | Inl e \<Rightarrow> k < length posts \<and> post_distance ref (posts ! k) = Inl e)"
      proof (cases r)
        case (Inl e)
        then have "k < length posts" "post_distance ref (posts[index := p] ! k) = Inl e"
          using res by simp_all
        moreover have "posts[index := p] ! k = posts ! k" using k by simp
        ultimately show ?thesis using Inl by simp
      next
        case (Inr ds)
        then show ?thesis using res by simp
      qed
      have "index \<le> k" using k by simp
      then show ?thesis using len k(2) ok' same' res' by blast
    qed
  qed
qed

lemma distances_loop_first_failure:
  assumes "k < length posts"
      and "\<forall>i<k. \<exists>x. distance_step ref (posts ! i) = Inr x"
      and "post_distance ref (posts ! k) = Inl e"
  shows "snd (distances_loop ref posts 0 []) = Inl e"
proof -
  obtain posts' r where run: "distances_loop ref posts 0 [] = (posts', r)"
    by (cases "distances_loop ref posts 0 []")
  from distances_loop_frame[OF run] obtain j where j: "j \<le> length posts"
    and ok: "\<forall>i. i < j \<longrightarrow>
              distance_step ref (posts ! i) = Inr (projr (post_distance ref (posts ! i)), posts' ! i)"
    and res: "(case r of Inr ds \<Rightarrow> j = length posts
                     | Inl e' \<Rightarrow> j < length posts \<and> post_distance ref (posts ! j) = Inl e')"
    by auto
  have kfail: "distance_step ref (posts ! k) = Inl e"
    using assms(3) by (simp add: distance_step_Inl)
  have "\<not> k < j"
  proof
    assume "k < j"
    then have "distance_step ref (posts ! k) = Inr (projr (post_distance ref (posts ! k)), posts' ! k)"
      using ok by simp
    with kfail show False by simp
  qed
  moreover have "\<not> j < k"
  proof
    assume jk: "j < k"
    then obtain x where "distance_step ref (posts ! j) = Inr x" using assms(2) by blast
    moreover have "j < length posts" using jk assms(1) by simp
    ultimately show False
      using res by (cases r) (auto simp: distance_step_Inl[symmetric])
  qed
  ultimately have "j = k" by simp
  then show ?thesis using res assms(1,3) run by (cases r) auto
qed






section \<open>The ranking scenario of the specification\<close>

lemma haversine_formula_10_10_pos: "0 < haversine_formula 0 0 10 10"
proof -
  let ?h = "(sin ((10 * pi / 180 - 0 * pi / 180) / 2))\<^sup>2
            + cos (0 * pi / 180) * cos (10 * pi / 180) * (sin ((10 * pi / 180 - 0 * pi / 180) / 2))\<^sup>2"
  have b: "0 \<le> ?h" "?h \<le> 1" by (rule hav_bounds)+
  have s: "0 < sin (pi / 36)"
    by (rule sin_gt_zero) (use pi_gt_zero in simp_all)
  have c: "0 < cos (pi / 18)"
    by (rule cos_gt_zero_pi) (use pi_gt_zero in simp_all)
  have "0 < (sin (pi / 36))\<^sup>2 + cos (pi / 18) * (sin (pi / 36))\<^sup>2"
    using s c by (simp add: add_pos_pos)
  then have hpos: "0 < ?h" by simp
  then have "0 < sqrt ?h" by simp
  moreover have "sqrt ?h \<le> 1" using b(2) by simp
  ultimately have "arcsin 0 < arcsin (sqrt ?h)"
    by (intro arcsin_less_arcsin) simp_all
  then have "0 < arcsin (sqrt ?h)" by simp
  then show ?thesis
    by (simp add: haversine_formula_def Let_def)
qed

lemma ranking_scenario:
  "sort_posts_in_order_of_increasing_distance
     [PDict [(''id'', PInt 1), (''isOnline'', PBool True), (''latitude'', PInt 10), (''longitude'', PInt 10)],
      PDict [(''id'', PInt 2), (''isOnline'', PBool True), (''latitude'', PInt 0), (''longitude'', PInt 0)]]
     (PTuple [PInt 0, PInt 0])
   = ([PDict [(''id'', PInt 1), (''isOnline'', PBool True), (''latitude'', PInt 10), (''longitude'', PInt 10),
              (''distance'', PFloat (haversine_formula 0 0 10 10))],
       PDict [(''id'', PInt 2), (''isOnline'', PBool True), (''latitude'', PInt 0), (''longitude'', PInt 0),
              (''distance'', PFloat 0)]],
      Inr [PDict [(''id'', PInt 1), (''isOnline'', PBool True), (''latitude'', PInt 10), (''longitude'', PInt 10),
              (''distance'', PFloat (haversine_formula 0 0 10 10))]])"
proof -
  let ?ref = "PTuple [PInt 0, PInt 0]"
  let ?p1 = "PDict [(''id'', PInt 1), (''isOnline'', PBool True), (''latitude'', PInt 10), (''longitude'', PInt 10)]"
  let ?p2 = "PDict [(''id'', PInt 2), (''isOnline'', PBool True), (''latitude'', PInt 0), (''longitude'', PInt 0)]"
  let ?d = "haversine_formula 0 0 10 10"
  let ?q1 = "PDict [(''id'', PInt 1), (''isOnline'', PBool True), (''latitude'', PInt 10), (''longitude'', PInt 10),
              (''distance'', PFloat ?d)]"
  let ?q2 = "PDict [(''id'', PInt 2), (''isOnline'', PBool True), (''latitude'', PInt 0), (''longitude'', PInt 0),
              (''distance'', PFloat 0)]"
  have h1: "haversine ?ref (PTuple [PInt 10, PInt 10]) = Inr ?d"
    using haversine_numeric[of "PInt 0" 0 "PInt 0" 0 "PInt 10" 10 "PInt 10" 10] by simp
  have h2: "haversine ?ref (PTuple [PInt 0, PInt 0]) = Inr 0"
    using haversine_numeric[of "PInt 0" 0 "PInt 0" 0 "PInt 0" 0 "PInt 0" 0]
    by (simp add: haversine_formula_self)
  have s1: "distance_step ?ref ?p1 = Inr (?d, ?q1)"
    by (simp add: distance_step_def post_distance_def bindE_def h1)
  have s2: "distance_step ?ref ?p2 = Inr (0, ?q2)"
    by (simp add: distance_step_def post_distance_def bindE_def h2)
  have loop: "distances_loop ?ref [?p1, ?p2] 0 [] = ([?q1, ?q2], Inr [(?d, 0), (0, 1)])"
    by (simp add: distances_loop.simps s1 s2)
  have srt: "sort [(?d, 0::nat), (0, 1)] = [(0, 1), (?d, 0)]"
    using haversine_formula_10_10_pos by (simp add: less_eq_prod_def)
  have sel: "select_posts [?q1, ?q2] [(0, 1), (?d, 0)] = Inr [?q1]"
    using haversine_formula_10_10_pos by (simp add: bindE_def seq_index_def)
  have body: "sort_posts_try [?p1, ?p2] ?ref = ([?q1, ?q2], Inr [?q1])"
    unfolding sort_posts_try_def loop by (simp only: prod.case sum.case srt sel)
  show ?thesis
    unfolding sort_posts_in_order_of_increasing_distance_def body
    by (simp only: prod.case sum.case)
qed


section \<open>What a call leaves in the caller's posts\<close>






section \<open>Requests: which error a response raises\<close>

lemma make_request_response:
  "make_request self (GetReturns r) method_url kwargs =
     (if 400 \<le> status_code r \<and> status_code r < 600
      then Inl (status_code_error kwargs (host_url self @ ''/'' @ method_url) (status_code r) (text_body r))
      else case json_body r of
             None \<Rightarrow> Inl (send_request_error kwargs (host_url self @ ''/'' @ method_url))
           | Some j \<Rightarrow>
               if truthy j then Inr j
               else Inl (status_code_error kwargs (host_url self @ ''/'' @ method_url)
                          (status_code r) (text_body r)))"
  by (simp add: make_request_def make_request_try_def raise_for_status_def json_def bindE_def
      py_raise_def isinstance_def Let_def split: option.splits)

lemma make_request_raises:
  "make_request self (GetRaises e) method_url kwargs =
     (if isinstance e ReqHTTPError then Inl (Err PyUnboundLocalError [])
      else if isinstance e ReqRequestException
      then Inl (send_request_error kwargs (host_url self @ ''/'' @ method_url))
      else if isinstance e ReqJSONDecodeError then Inl (Err PyUnboundLocalError [])
      else Inl e)"
  by (simp add: make_request_def make_request_try_def py_raise_def Let_def)

lemma not_status_code_error_subclass:
  "isinstance e ReqRequestException \<Longrightarrow> exc_cls e \<noteq> StatusCodeError"
  by (cases e) (auto simp: isinstance_def)

text \<open>
  Claim C3, on the code. A response with status 200 whose body is not valid JSON:
  \<open>response.json()\<close> raises the \<open>JSONDecodeError\<close> of \<open>requests\<close>, which is a
  \<open>RequestException\<close>; the handler for \<open>RequestException\<close> stands before the handler for
  \<open>JSONDecodeError\<close>, so the call raises \<open>SendRequestError\<close>, and \<open>DecodingError\<close> is
  never raised.
\<close>

theorem make_request_invalid_json_raises_send_request_error:
  "make_request \<lparr>host_url = DEFAULT_HOST, timeout = TIMEOUT\<rparr>
     (GetReturns \<lparr>status_code = 200, text_body = ''<html>'', json_body = None\<rparr>) POSTS_URL []
   = Inl (send_request_error [] (DEFAULT_HOST @ ''/'' @ POSTS_URL))"
  by (simp add: make_request_response)

text \<open>
  Against claim C4 as stated: a response with the status 300, which is not 2xx, and
  a non-empty JSON body is returned; no \<open>StatusCodeError\<close> is raised.
\<close>

theorem make_request_status_300_returns_body:
  "make_request \<lparr>host_url = DEFAULT_HOST, timeout = TIMEOUT\<rparr>
     (GetReturns \<lparr>status_code = 300, text_body = ''[1]'', json_body = Some (PList [PInt 1])\<rparr>)
     POSTS_URL []
   = Inr (PList [PInt 1])"
  by (simp add: make_request_response)

text \<open>
  Claim C4, as amended. Provided the session does not itself raise the library's
  \<open>StatusCodeError\<close>, \<open>make_request\<close> raises a \<open>StatusCodeError\<close> exactly when the
  session returns a response whose status is in 400..599 (what \<open>raise_for_status\<close>
  rejects) or whose body decodes to a falsy JSON value; the error is then the one built
  from the params, the url, the status code and the text of the response, and for the
  status 500 its message carries 500.
\<close>

theorem make_request_status_code_error_iff:
  assumes "\<And>e. got = GetRaises e \<Longrightarrow> exc_cls e \<noteq> StatusCodeError"
  shows "((\<exists>msg. make_request self got method_url kwargs = Inl (Err StatusCodeError msg)) \<longleftrightarrow>
          (\<exists>r. got = GetReturns r
             \<and> ((400 \<le> status_code r \<and> status_code r < 600)
                \<or> (\<exists>j. json_body r = Some j \<and> \<not> truthy j))))
    \<and> (\<forall>r. got = GetReturns r
             \<and> ((400 \<le> status_code r \<and> status_code r < 600)
                \<or> (\<exists>j. json_body r = Some j \<and> \<not> truthy j)) \<longrightarrow>
           make_request self got method_url kwargs
           = Inl (status_code_error kwargs (host_url self @ ''/'' @ method_url)
                    (status_code r) (text_body r)))
    \<and> (\<forall>r. got = GetReturns r \<and> status_code r = 500 \<longrightarrow>
           (\<exists>msg. make_request self got method_url kwargs = Inl (Err StatusCodeError msg)
                 \<and> Val (PInt 500) \<in> set msg))"
proof (cases got)
  case (GetRaises e)
  have "exc_cls e \<noteq> StatusCodeError" using assms GetRaises by simp
  then have "\<not> (\<exists>msg. make_request self got method_url kwargs = Inl (Err StatusCodeError msg))"
    unfolding GetRaises make_request_raises
    by (cases e) (auto simp: send_request_error_def)
  then show ?thesis using GetRaises by simp
next
  case (GetReturns r)
  show ?thesis
    unfolding GetReturns make_request_response
    by (auto simp: status_code_error_def send_request_error_def split: option.splits)
qed

text \<open>The theorem of claim C4 on a response with the status 500.\<close>

theorem make_request_status_code_error_iff_witness:
  "\<exists>msg. make_request \<lparr>host_url = DEFAULT_HOST, timeout = TIMEOUT\<rparr>
            (GetReturns \<lparr>status_code = 500, text_body = ''Internal Server Error'', json_body = None\<rparr>) POSTS_URL []
          = Inl (Err StatusCodeError msg)
        \<and> Val (PInt 500) \<in> set msg"
  using make_request_status_code_error_iff[of
      "GetReturns \<lparr>status_code = 500, text_body = ''Internal Server Error'', json_body = None\<rparr>"
      "\<lparr>host_url = DEFAULT_HOST, timeout = TIMEOUT\<rparr>" POSTS_URL "[]"]
  by (simp add: status_code_error_def)

section \<open>Errors that pass through unchanged\<close>

lemma sort_posts_first_failure:
  assumes "k < length posts"
      and "\<forall>i<k. \<exists>x. distance_step ref (posts ! i) = Inr x"
      and "post_distance ref (posts ! k) = Inl e"
      and "isinstance e DistanceException"
  shows "snd (sort_posts_in_order_of_increasing_distance posts ref) = Inl e"
proof -
  obtain posts' r where run: "distances_loop ref posts 0 [] = (posts', r)"
    by (cases "distances_loop ref posts 0 []")
  have "r = Inl e"
    using distances_loop_first_failure[OF assms(1-3)] run by simp
  then show ?thesis
    using run assms(4)
    by (simp add: sort_posts_in_order_of_increasing_distance_def sort_posts_try_def)
qed

text \<open>
  Claim C7. An error of \<open>make_request\<close> that is a \<open>RequestException\<close> is what
  \<open>get_available_posts\<close> and \<open>get_last_measurement_from_post\<close> raise, unchanged; a
  \<open>DistanceException\<close> raised for the first post whose distance cannot be computed is what
  \<open>sort_posts_in_order_of_increasing_distance\<close> raises, unchanged. None is wrapped into
  \<open>GetPostsError\<close>, \<open>GetMeasurementError\<close> or \<open>SortPostsError\<close>.
\<close>

theorem domain_errors_propagate_unchanged:
  "(make_request self got POSTS_URL [] = Inl e \<and> isinstance e RequestException
      \<longrightarrow> get_available_posts self got = Inl e)
   \<and> (make_request self got MEASUREMENTS_URL (measurement_params now post_id) = Inl e
        \<and> isinstance e RequestException
      \<longrightarrow> get_last_measurement_from_post self now got fmt post_id = Inl e)
   \<and> (k < length posts
        \<and> (\<forall>i<k. \<exists>x. distance_step reference_point (posts ! i) = Inr x)
        \<and> post_distance reference_point (posts ! k) = Inl e'
        \<and> isinstance e' DistanceException
      \<longrightarrow> snd (sort_posts_in_order_of_increasing_distance posts reference_point) = Inl e')"
proof (intro conjI impI)
  assume "make_request self got POSTS_URL [] = Inl e \<and> isinstance e RequestException"
  then show "get_available_posts self got = Inl e"
    by (simp add: get_available_posts_def get_available_posts_except_def)
next
  assume "make_request self got MEASUREMENTS_URL (measurement_params now post_id) = Inl e
        \<and> isinstance e RequestException"
  then show "get_last_measurement_from_post self now got fmt post_id = Inl e"
    by (simp add: get_last_measurement_from_post_def get_last_measurement_except_def)
next
  assume "k < length posts
        \<and> (\<forall>i<k. \<exists>x. distance_step reference_point (posts ! i) = Inr x)
        \<and> post_distance reference_point (posts ! k) = Inl e'
        \<and> isinstance e' DistanceException"
  then show "snd (sort_posts_in_order_of_increasing_distance posts reference_point) = Inl e'"
    using sort_posts_first_failure by blast
qed

lemma haversine_of_text:
  "haversine (PTuple [PInt 0, PInt 0]) (PTuple [PStr ''north'', PInt 0])
   = Inl (haversine_formula_error (PTuple [PInt 0, PInt 0]) (PTuple [PStr ''north'', PInt 0]))"
  by (simp add: haversine_def haversine_body_def bindE_def seq_index_def radians_def
      py_raise_def isinstance_def)

text \<open>
  The theorem of claim C7 on a response with the status 500, on a timeout of the
  session, and on a post whose latitude is a text.
\<close>

theorem domain_errors_propagate_unchanged_witness:
  "get_available_posts \<lparr>host_url = DEFAULT_HOST, timeout = TIMEOUT\<rparr>
     (GetReturns \<lparr>status_code = 500, text_body = ''Internal Server Error'', json_body = None\<rparr>)
   = Inl (status_code_error [] (DEFAULT_HOST @ ''/'' @ POSTS_URL) 500 ''Internal Server Error'')
   \<and> get_last_measurement_from_post \<lparr>host_url = DEFAULT_HOST, timeout = TIMEOUT\<rparr> 0
       (GetRaises (Err ReqTimeout [])) (\<lambda>v. ''?'') (PInt 7)
     = Inl (send_request_error (measurement_params 0 (PInt 7)) (DEFAULT_HOST @ ''/'' @ MEASUREMENTS_URL))
   \<and> snd (sort_posts_in_order_of_increasing_distance
            [PDict [(''latitude'', PStr ''north''), (''longitude'', PInt 0)]] (PTuple [PInt 0, PInt 0]))
     = Inl (haversine_formula_error (PTuple [PInt 0, PInt 0]) (PTuple [PStr ''north'', PInt 0]))"
proof -
  let ?self = "\<lparr>host_url = DEFAULT_HOST, timeout = TIMEOUT\<rparr>"
  let ?e1 = "status_code_error [] (DEFAULT_HOST @ ''/'' @ POSTS_URL) 500 ''Internal Server Error''"
  let ?e2 = "send_request_error (measurement_params 0 (PInt 7)) (DEFAULT_HOST @ ''/'' @ MEASUREMENTS_URL)"
  let ?e3 = "haversine_formula_error (PTuple [PInt 0, PInt 0]) (PTuple [PStr ''north'', PInt 0])"
  let ?posts = "[PDict [(''latitude'', PStr ''north''), (''longitude'', PInt 0)]]"
  have a: "make_request ?self (GetReturns \<lparr>status_code = 500, text_body = ''Internal Server Error'', json_body = None\<rparr>)
             POSTS_URL [] = Inl ?e1 \<and> isinstance ?e1 RequestException"
    by (simp add: make_request_response status_code_error_def isinstance_def)
  have b: "make_request ?self (GetRaises (Err ReqTimeout [])) MEASUREMENTS_URL
             (measurement_params 0 (PInt 7)) = Inl ?e2 \<and> isinstance ?e2 RequestException"
    by (simp add: make_request_raises send_request_error_def isinstance_def)
  have c: "0 < length ?posts
        \<and> (\<forall>i<0. \<exists>x. distance_step (PTuple [PInt 0, PInt 0]) (?posts ! i) = Inr x)
        \<and> post_distance (PTuple [PInt 0, PInt 0]) (?posts ! 0) = Inl ?e3
        \<and> isinstance ?e3 DistanceException"
    by (simp add: post_distance_def bindE_def haversine_of_text)
       (simp add: haversine_formula_error_def isinstance_def)
  show ?thesis
    using a b c
      domain_errors_propagate_unchanged[where self = ?self
        and got = "GetReturns \<lparr>status_code = 500, text_body = ''Internal Server Error'', json_body = None\<rparr>"
        and e = ?e1]
      domain_errors_propagate_unchanged[where self = ?self and got = "GetRaises (Err ReqTimeout [])"
        and now = 0 and post_id = "PInt 7" and e = ?e2 and fmt = "\<lambda>v. ''?''"]
      domain_errors_propagate_unchanged[where k = 0 and posts = ?posts
        and reference_point = "PTuple [PInt 0, PInt 0]" and e' = ?e3]
    by blast
qed

section \<open>Flattening \<open>geo\<close> into a post\<close>

lemma map_of_dict_del: "map_of (dict_del k d) k' = (if k' = k then None else map_of d k')"
  by (induction d) (auto simp: dict_del_def)

lemma map_of_flatten_geo:
  "distinct (map fst g) \<Longrightarrow>
   map_of (flatten_geo g d) k = (case map_of g k of Some v \<Rightarrow> Some v | None \<Rightarrow> map_of d k)"
proof (induction g arbitrary: d)
  case Nil
  then show ?case by simp
next
  case (Cons kv g)
  obtain a b where kv: "kv = (a, b)" by (cases kv)
  have d: "distinct (map fst g)" and fresh: "a \<notin> fst ` set g"
    using Cons.prems kv by auto
  have none: "map_of g a = None" using fresh by (simp add: map_of_eq_None_iff)
  show ?case
    using Cons.IH[OF d, of "dict_set a b d"] none
    by (auto simp: kv map_of_dict_set split: option.splits)
qed

lemma flatten_post_well_formed:
  assumes "map_of post ''geo'' = Some (PDict g)"
  shows "flatten_post (PDict post) = (PDict (flatten_geo g (dict_del ''geo'' post)), None)"
  using assms by (simp add: flatten_post_def)

lemma flatten_posts_all:
  "\<forall>x\<in>set xs. snd (flatten_post x) = None \<Longrightarrow>
   flatten_posts xs = (map (\<lambda>x. fst (flatten_post x)) xs, None)"
  by (induction xs) (auto split: prod.splits option.splits)

text \<open>
  Claim C10, as amended. When the server returns a list of records, each a dict with a
  \<open>geo\<close> dict, \<open>get_available_posts\<close> returns as many records, and in each a key of
  \<open>geo\<close> holds the value it has in \<open>geo\<close> (also where the record had the key itself:
  \<open>geo\<close> wins), any other key except \<open>geo\<close> keeps the value of the record, and the key
  \<open>geo\<close> is absent unless \<open>geo\<close> itself has a key \<open>geo\<close>.
\<close>

theorem get_available_posts_flattens_geo:
  assumes "make_request self got POSTS_URL [] = Inr (PList xs)"
      and "\<forall>x\<in>set xs. \<exists>post g. x = PDict post \<and> map_of post ''geo'' = Some (PDict g)
                \<and> distinct (map fst g)"
  shows "\<exists>ys. get_available_posts self got = Inr (PList ys) \<and> length ys = length xs
    \<and> (\<forall>i<length xs. \<forall>post g. xs ! i = PDict post \<and> map_of post ''geo'' = Some (PDict g) \<longrightarrow>
          (\<exists>post'. ys ! i = PDict post'
             \<and> (\<forall>k. map_of post' k =
                    (case map_of g k of
                       Some v \<Rightarrow> Some v
                     | None \<Rightarrow> if k = ''geo'' then None else map_of post k))))"
proof -
  let ?ys = "map (\<lambda>x. fst (flatten_post x)) xs"
  have ok: "\<forall>x\<in>set xs. snd (flatten_post x) = None"
    using assms(2) by (auto simp: flatten_post_well_formed)
  have run: "get_available_posts self got = Inr (PList ?ys)"
    by (simp add: get_available_posts_def assms(1) flatten_all_def flatten_posts_all[OF ok])
  have each: "\<exists>post'. ?ys ! i = PDict post'
             \<and> (\<forall>k. map_of post' k =
                    (case map_of g k of
                       Some v \<Rightarrow> Some v
                     | None \<Rightarrow> if k = ''geo'' then None else map_of post k))"
    if i: "i < length xs" and x: "xs ! i = PDict post" "map_of post ''geo'' = Some (PDict g)"
    for i post g
  proof -
    from assms(2) i obtain post0 g0 where w: "xs ! i = PDict post0"
      "map_of post0 ''geo'' = Some (PDict g0)" "distinct (map fst g0)"
      by (meson nth_mem)
    have same: "post0 = post" "g0 = g" using w x by simp_all
    have d: "distinct (map fst g)" using w(3) same by simp
    have "?ys ! i = PDict (flatten_geo g (dict_del ''geo'' post))"
      using i x by (simp add: flatten_post_well_formed)
    moreover have "map_of (flatten_geo g (dict_del ''geo'' post)) k =
                    (case map_of g k of
                       Some v \<Rightarrow> Some v
                     | None \<Rightarrow> if k = ''geo'' then None else map_of post k)" for k
      by (auto simp: map_of_flatten_geo[OF d] map_of_dict_del split: option.splits)
    ultimately show ?thesis by blast
  qed
  have "length ?ys = length xs" by simp
  with run each show ?thesis by blast
qed

text \<open>
  Against claim C10 as stated: a record whose \<open>geo\<close> object has a key \<open>geo\<close> keeps a key
  \<open>geo\<close> after flattening.
\<close>

theorem get_available_posts_geo_inside_geo_survives:
  "get_available_posts \<lparr>host_url = DEFAULT_HOST, timeout = TIMEOUT\<rparr>
     (GetReturns \<lparr>status_code = 200, text_body = ''{...}'',
        json_body = Some (PList [PDict [(''id'', PInt 1), (''geo'', PDict [(''geo'', PInt 5)])]])\<rparr>)
   = Inr (PList [PDict [(''id'', PInt 1), (''geo'', PInt 5)]])"
  by (simp add: get_available_posts_def make_request_response flatten_all_def flatten_post_def
      dict_del_def)

text \<open>The theorem of claim C10 on a record whose latitude collides with that of \<open>geo\<close>.\<close>

theorem get_available_posts_flattens_geo_witness:
  "\<exists>ys. get_available_posts \<lparr>host_url = DEFAULT_HOST, timeout = TIMEOUT\<rparr>
           (GetReturns \<lparr>status_code = 200, text_body = ''{...}'',
        json_body = Some (PList [PDict [(''id'', PInt 1), (''latitude'', PInt 99), (''geo'', PDict [(''latitude'', PInt 10), (''longitude'', PInt 20)])]])\<rparr>) = Inr (PList ys)
    \<and> length ys = length [PDict [(''id'', PInt 1), (''latitude'', PInt 99), (''geo'', PDict [(''latitude'', PInt 10), (''longitude'', PInt 20)])]]
    \<and> (\<forall>i<length [PDict [(''id'', PInt 1), (''latitude'', PInt 99), (''geo'', PDict [(''latitude'', PInt 10), (''longitude'', PInt 20)])]]. \<forall>post g.
          [PDict [(''id'', PInt 1), (''latitude'', PInt 99), (''geo'', PDict [(''latitude'', PInt 10), (''longitude'', PInt 20)])]] ! i = PDict post \<and> map_of post ''geo'' = Some (PDict g) \<longrightarrow>
          (\<exists>post'. ys ! i = PDict post'
             \<and> (\<forall>k. map_of post' k =
                    (case map_of g k of
                       Some v \<Rightarrow> Some v
                     | None \<Rightarrow> if k = ''geo'' then None else map_of post k))))"
proof (rule get_available_posts_flattens_geo)
  show "make_request \<lparr>host_url = DEFAULT_HOST, timeout = TIMEOUT\<rparr>
          (GetReturns \<lparr>status_code = 200, text_body = ''{...}'',
        json_body = Some (PList [PDict [(''id'', PInt 1), (''latitude'', PInt 99), (''geo'', PDict [(''latitude'', PInt 10), (''longitude'', PInt 20)])]])\<rparr>) POSTS_URL []
        = Inr (PList [PDict [(''id'', PInt 1), (''latitude'', PInt 99), (''geo'', PDict [(''latitude'', PInt 10), (''longitude'', PInt 20)])]])"
    by (simp add: make_request_response)
  show "\<forall>x\<in>set [PDict [(''id'', PInt 1), (''latitude'', PInt 99), (''geo'', PDict [(''latitude'', PInt 10), (''longitude'', PInt 20)])]].
          \<exists>post g. x = PDict post \<and> map_of post ''geo'' = Some (PDict g) \<and> distinct (map fst g)"
    by simp
qed

section \<open>Reshaping a measurement\<close>

declare digits10.simps [simp del]

lemma keys_dict_del: "distinct (map fst d) \<Longrightarrow> distinct (map fst (dict_del k d))"
  by (simp add: dict_del_def distinct_map_filter)

lemma set_keys_dict_set: "fst ` set (dict_set k v d) = insert k (fst ` set d)"
  by (induction k v d rule: dict_set.induct) auto

lemma keys_dict_set: "distinct (map fst d) \<Longrightarrow> distinct (map fst (dict_set k v d))"
proof (induction d)
  case Nil
  then show ?case by simp
next
  case (Cons kv d)
  obtain a b where kv: "kv = (a, b)" by (cases kv)
  show ?case
  proof (cases "a = k")
    case True
    then show ?thesis using Cons.prems kv by simp
  next
    case False
    have "a \<notin> fst ` set (dict_set k v d)"
      using Cons.prems kv False by (simp add: set_keys_dict_set)
    then show ?thesis using Cons kv False by simp
  qed
qed

lemma seq_index_last: "xs \<noteq> [] \<Longrightarrow> seq_index xs (- 1) = Inr (last xs)"
proof -
  assume ne: "xs \<noteq> []"
  then have len: "Suc 0 \<le> length xs" by (cases xs) simp_all
  have "nat (int (length xs) + - 1) = length xs - 1" by simp
  then show ?thesis
    using ne len by (simp add: seq_index_def last_conv_nth)
qed

lemma annotate_units_dict:
  "distinct (map fst entries) \<Longrightarrow>
   \<exists>data'. annotate_units fmt (PDict u) entries data = (data', None)
     \<and> (\<forall>k. map_of data' k =
            (case map_of entries k of
               None \<Rightarrow> map_of data k
             | Some x \<Rightarrow>
                 (case map_of u k of
                    None \<Rightarrow> map_of data k
                  | Some unit \<Rightarrow> Some (PStr (py_format fmt x @ '' '' @ py_format fmt unit)))))"
proof (induction entries arbitrary: data)
  case Nil
  then show ?case by simp
next
  case (Cons kv entries)
  obtain a x where kv: "kv = (a, x)" by (cases kv)
  have d: "distinct (map fst entries)" and fresh: "map_of entries a = None"
    using Cons.prems kv by (auto simp: map_of_eq_None_iff)
  show ?case
  proof (cases "map_of u a")
    case None
    then have absent: "a \<notin> fst ` set u" by (simp add: map_of_eq_None_iff)
    from Cons.IH[OF d, of data] obtain data' where
      run: "annotate_units fmt (PDict u) entries data = (data', None)"
      and look: "\<forall>k. map_of data' k =
            (case map_of entries k of
               None \<Rightarrow> map_of data k
             | Some x \<Rightarrow>
                 (case map_of u k of
                    None \<Rightarrow> map_of data k
                  | Some unit \<Rightarrow> Some (PStr (py_format fmt x @ '' '' @ py_format fmt unit))))"
      by blast
    have "annotate_units fmt (PDict u) (kv # entries) data = (data', None)"
      using run absent by (simp add: kv bindE_def)
    moreover have "map_of data' k =
            (case map_of (kv # entries) k of
               None \<Rightarrow> map_of data k
             | Some x \<Rightarrow>
                 (case map_of u k of
                    None \<Rightarrow> map_of data k
                  | Some unit \<Rightarrow> Some (PStr (py_format fmt x @ '' '' @ py_format fmt unit))))" for k
      using look fresh None by (simp add: kv)
    ultimately show ?thesis by blast
  next
    case (Some unit)
    then have present: "a \<in> fst ` set u"
      by (metis map_of_eq_None_iff option.distinct(1))
    let ?new = "PStr (py_format fmt x @ '' '' @ py_format fmt unit)"
    from Cons.IH[OF d, of "dict_set a ?new data"] obtain data' where
      run: "annotate_units fmt (PDict u) entries (dict_set a ?new data) = (data', None)"
      and look: "\<forall>k. map_of data' k =
            (case map_of entries k of
               None \<Rightarrow> map_of (dict_set a ?new data) k
             | Some x \<Rightarrow>
                 (case map_of u k of
                    None \<Rightarrow> map_of (dict_set a ?new data) k
                  | Some unit \<Rightarrow> Some (PStr (py_format fmt x @ '' '' @ py_format fmt unit))))"
      by blast
    have "annotate_units fmt (PDict u) (kv # entries) data = (data', None)"
      using run present Some by (simp add: kv bindE_def)
    moreover have "map_of data' k =
            (case map_of (kv # entries) k of
               None \<Rightarrow> map_of data k
             | Some x \<Rightarrow>
                 (case map_of u k of
                    None \<Rightarrow> map_of data k
                  | Some unit \<Rightarrow> Some (PStr (py_format fmt x @ '' '' @ py_format fmt unit))))" for k
      using look fresh Some by (auto simp: kv map_of_dict_set split: option.splits)
    ultimately show ?thesis by blast
  qed
qed

text \<open>
  Claim C8. On a well-formed response (a dict whose \<open>meta.units\<close> is a dict and whose
  \<open>data\<close> is a non-empty list ending in a dict \<open>d\<close> that has \<open>aqi.cityairAqi.value\<close>),
  \<open>get_last_measurement_from_post\<close> returns a dict made of that last sample: the key
  \<open>aqi\<close> is gone, the key \<open>cityairAqi\<close> stands for the nested value, every other key is
  the sample's, and each of these fields whose key is in \<open>meta.units\<close> holds the text of
  its value, a space, and its unit.
\<close>

theorem get_last_measurement_reshapes_last_sample:
  assumes "make_request self got MEASUREMENTS_URL (measurement_params now post_id) = Inr (PDict m)"
      and "map_of m ''meta'' = Some (PDict meta)"
      and "map_of meta ''units'' = Some (PDict units)"
      and "map_of m ''data'' = Some (PList samples)"
      and "samples \<noteq> []"
      and "last samples = PDict d"
      and "distinct (map fst d)"
      and "map_of d ''aqi'' = Some (PDict aqi)"
      and "map_of aqi ''cityairAqi'' = Some (PDict c)"
      and "map_of c ''value'' = Some v"
  shows "\<exists>result. get_last_measurement_from_post self now got fmt post_id = Inr (PDict result)
    \<and> (\<forall>k. map_of result k =
          (if k = ''aqi'' then None
           else case (if k = ''cityairAqi'' then Some v else map_of d k) of
                  None \<Rightarrow> None
                | Some x \<Rightarrow>
                    (case map_of units k of
                       None \<Rightarrow> Some x
                     | Some unit \<Rightarrow> Some (PStr (py_format fmt x @ '' '' @ py_format fmt unit)))))"
proof -
  let ?d1 = "dict_del ''aqi'' d"
  let ?d2 = "dict_set ''cityairAqi'' v ?d1"
  have dist: "distinct (map fst ?d2)"
    using assms(7) by (simp add: keys_dict_del keys_dict_set)
  from annotate_units_dict[OF dist, of fmt units ?d2] obtain d3 where
    run: "annotate_units fmt (PDict units) ?d2 ?d2 = (d3, None)"
    and look: "\<forall>k. map_of d3 k =
            (case map_of ?d2 k of
               None \<Rightarrow> map_of ?d2 k
             | Some x \<Rightarrow>
                 (case map_of units k of
                    None \<Rightarrow> map_of ?d2 k
                  | Some unit \<Rightarrow> Some (PStr (py_format fmt x @ '' '' @ py_format fmt unit))))"
    by blast
  have reshape: "reshape_measurement fmt (PDict m) = (set_last_data (PDict m) d3, Inr (PDict d3))"
    using assms(2-6,8-10) run
    by (simp add: reshape_measurement_def bindE_def seq_index_last Let_def)
  have ret: "get_last_measurement_from_post self now got fmt post_id = Inr (PDict d3)"
    by (simp add: get_last_measurement_from_post_def assms(1) reshape)
  have "map_of d3 k =
          (if k = ''aqi'' then None
           else case (if k = ''cityairAqi'' then Some v else map_of d k) of
                  None \<Rightarrow> None
                | Some x \<Rightarrow>
                    (case map_of units k of
                       None \<Rightarrow> Some x
                     | Some unit \<Rightarrow> Some (PStr (py_format fmt x @ '' '' @ py_format fmt unit))))" for k
    using look by (auto simp: map_of_dict_set map_of_dict_del split: option.splits)
  with ret show ?thesis by blast
qed

text \<open>The theorem of claim C8 on a response with one sample and two units.\<close>

theorem get_last_measurement_reshapes_last_sample_witness:
  "\<exists>result. get_last_measurement_from_post \<lparr>host_url = DEFAULT_HOST, timeout = TIMEOUT\<rparr> 0
       (GetReturns \<lparr>status_code = 200, text_body = ''{...}'',
        json_body = Some (PDict [(''meta'', PDict [(''units'', PDict [(''pm25'', PStr ''mg/m3''), (''temperature'', PStr ''C'')])]),
        (''data'', PList [PDict [(''date'', PStr ''2023-01-01T00:00:00Z''), (''pm25'', PInt 12),
           (''temperature'', PInt (- 3)), (''aqi'', PDict [(''cityairAqi'', PDict [(''value'', PInt 4)])])]])])\<rparr>) (\<lambda>v. ''?'') (PInt 7) = Inr (PDict result)
    \<and> (\<forall>k. map_of result k =
          (if k = ''aqi'' then None
           else case (if k = ''cityairAqi'' then Some (PInt 4) else map_of [(''date'', PStr ''2023-01-01T00:00:00Z''), (''pm25'', PInt 12),
           (''temperature'', PInt (- 3)), (''aqi'', PDict [(''cityairAqi'', PDict [(''value'', PInt 4)])])] k) of
                  None \<Rightarrow> None
                | Some x \<Rightarrow>
                    (case map_of [(''pm25'', PStr ''mg/m3''), (''temperature'', PStr ''C'')] k of
                       None \<Rightarrow> Some x
                     | Some unit \<Rightarrow> Some (PStr (py_format (\<lambda>v. ''?'') x @ '' '' @ py_format (\<lambda>v. ''?'') unit)))))"
proof (rule get_last_measurement_reshapes_last_sample)
  show "make_request \<lparr>host_url = DEFAULT_HOST, timeout = TIMEOUT\<rparr>
       (GetReturns \<lparr>status_code = 200, text_body = ''{...}'',
        json_body = Some (PDict [(''meta'', PDict [(''units'', PDict [(''pm25'', PStr ''mg/m3''), (''temperature'', PStr ''C'')])]),
        (''data'', PList [PDict [(''date'', PStr ''2023-01-01T00:00:00Z''), (''pm25'', PInt 12),
           (''temperature'', PInt (- 3)), (''aqi'', PDict [(''cityairAqi'', PDict [(''value'', PInt 4)])])]])])\<rparr>) MEASUREMENTS_URL (measurement_params 0 (PInt 7))
       = Inr (PDict [(''meta'', PDict [(''units'', PDict [(''pm25'', PStr ''mg/m3''), (''temperature'', PStr ''C'')])]),
        (''data'', PList [PDict [(''date'', PStr ''2023-01-01T00:00:00Z''), (''pm25'', PInt 12),
           (''temperature'', PInt (- 3)), (''aqi'', PDict [(''cityairAqi'', PDict [(''value'', PInt 4)])])]])])"
    by (simp add: make_request_response)
  show "map_of [(''meta'', PDict [(''units'', PDict [(''pm25'', PStr ''mg/m3''), (''temperature'', PStr ''C'')])]),
        (''data'', PList [PDict [(''date'', PStr ''2023-01-01T00:00:00Z''), (''pm25'', PInt 12),
           (''temperature'', PInt (- 3)), (''aqi'', PDict [(''cityairAqi'', PDict [(''value'', PInt 4)])])]])] ''meta'' = Some (PDict [(''units'', PDict [(''pm25'', PStr ''mg/m3''), (''temperature'', PStr ''C'')])])"
    by simp
  show "map_of [(''units'', PDict [(''pm25'', PStr ''mg/m3''), (''temperature'', PStr ''C'')])] ''units'' = Some (PDict [(''pm25'', PStr ''mg/m3''), (''temperature'', PStr ''C'')])"
    by simp
  show "map_of [(''meta'', PDict [(''units'', PDict [(''pm25'', PStr ''mg/m3''), (''temperature'', PStr ''C'')])]),
        (''data'', PList [PDict [(''date'', PStr ''2023-01-01T00:00:00Z''), (''pm25'', PInt 12),
           (''temperature'', PInt (- 3)), (''aqi'', PDict [(''cityairAqi'', PDict [(''value'', PInt 4)])])]])] ''data'' = Some (PList [PDict [(''date'', PStr ''2023-01-01T00:00:00Z''), (''pm25'', PInt 12),
           (''temperature'', PInt (- 3)), (''aqi'', PDict [(''cityairAqi'', PDict [(''value'', PInt 4)])])]])"
    by simp
  show "[PDict [(''date'', PStr ''2023-01-01T00:00:00Z''), (''pm25'', PInt 12),
           (''temperature'', PInt (- 3)), (''aqi'', PDict [(''cityairAqi'', PDict [(''value'', PInt 4)])])]] \<noteq> []"
    by simp
  show "last [PDict [(''date'', PStr ''2023-01-01T00:00:00Z''), (''pm25'', PInt 12),
           (''temperature'', PInt (- 3)), (''aqi'', PDict [(''cityairAqi'', PDict [(''value'', PInt 4)])])]] = PDict [(''date'', PStr ''2023-01-01T00:00:00Z''), (''pm25'', PInt 12),
           (''temperature'', PInt (- 3)), (''aqi'', PDict [(''cityairAqi'', PDict [(''value'', PInt 4)])])]"
    by simp
  show "distinct (map fst [(''date'', PStr ''2023-01-01T00:00:00Z''), (''pm25'', PInt 12),
           (''temperature'', PInt (- 3)), (''aqi'', PDict [(''cityairAqi'', PDict [(''value'', PInt 4)])])])"
    by simp
  show "map_of [(''date'', PStr ''2023-01-01T00:00:00Z''), (''pm25'', PInt 12),
           (''temperature'', PInt (- 3)), (''aqi'', PDict [(''cityairAqi'', PDict [(''value'', PInt 4)])])] ''aqi'' = Some (PDict [(''cityairAqi'', PDict [(''value'', PInt 4)])])"
    by simp
  show "map_of [(''cityairAqi'', PDict [(''value'', PInt 4)])] ''cityairAqi'' = Some (PDict [(''value'', PInt 4)])"
    by simp
  show "map_of [(''value'', PInt 4)] ''value'' = Some (PInt 4)"
    by simp
qed

text \<open>The same response, computed: the units are appended, the index is moved.\<close>

lemma measurement_scenario:
  "get_last_measurement_from_post \<lparr>host_url = DEFAULT_HOST, timeout = TIMEOUT\<rparr> 0
       (GetReturns \<lparr>status_code = 200, text_body = ''{...}'',
        json_body = Some (PDict [(''meta'', PDict [(''units'', PDict [(''pm25'', PStr ''mg/m3''), (''temperature'', PStr ''C'')])]),
        (''data'', PList [PDict [(''date'', PStr ''2023-01-01T00:00:00Z''), (''pm25'', PInt 12),
           (''temperature'', PInt (- 3)), (''aqi'', PDict [(''cityairAqi'', PDict [(''value'', PInt 4)])])]])])\<rparr>) fmt (PInt 7)
   = Inr (PDict [(''date'', PStr ''2023-01-01T00:00:00Z''), (''pm25'', PStr ''12 mg/m3''),
                 (''temperature'', PStr ''-3 C''), (''cityairAqi'', PInt 4)])"
proof -
  have d12: "digits10 12 = ''12''"
    by (simp add: digits10.simps[of 12] digits10.simps[of "Suc 0"])
  have d3: "digits10 3 = ''3''"
    by (simp add: digits10.simps[of 3])
  show ?thesis
    by (simp add: get_last_measurement_from_post_def make_request_response reshape_measurement_def
        bindE_def seq_index_def dict_del_def py_format_def d12 d3 Let_def)
qed

section \<open>The scenario of the specification, from the response to the ranking\<close>

text \<open>
  Claim C2, as amended. The server's records id 1 at (10, 10) and id 2 at (0, 0), both
  online, are flattened by \<open>get_available_posts\<close>; ranked from the reference point (0, 0),
  the call returns the post id 1 alone: the post id 2 is at the reference point, its
  distance is 0 and the filter drops it. Both posts get their distance stored.
\<close>

theorem ranking_scenario_returns_only_id1:
  "get_available_posts \<lparr>host_url = DEFAULT_HOST, timeout = TIMEOUT\<rparr>
     (GetReturns \<lparr>status_code = 200, text_body = ''[...]'',
        json_body = Some (PList
          [PDict [(''id'', PInt 1), (''geo'', PDict [(''latitude'', PInt 10), (''longitude'', PInt 10)]),
               (''isOnline'', PBool True)],
           PDict [(''id'', PInt 2), (''geo'', PDict [(''latitude'', PInt 0), (''longitude'', PInt 0)]),
               (''isOnline'', PBool True)]])\<rparr>)
   = Inr (PList [PDict [(''id'', PInt 1), (''isOnline'', PBool True), (''latitude'', PInt 10),
       (''longitude'', PInt 10)],
      PDict [(''id'', PInt 2), (''isOnline'', PBool True), (''latitude'', PInt 0), (''longitude'', PInt 0)]])
   \<and> sort_posts_in_order_of_increasing_distance
     [PDict [(''id'', PInt 1), (''isOnline'', PBool True), (''latitude'', PInt 10),
       (''longitude'', PInt 10)],
      PDict [(''id'', PInt 2), (''isOnline'', PBool True), (''latitude'', PInt 0), (''longitude'', PInt 0)]]
     (PTuple [PInt 0, PInt 0])
     = ([PDict [(''id'', PInt 1), (''isOnline'', PBool True), (''latitude'', PInt 10), (''longitude'', PInt 10),
            (''distance'', PFloat (haversine_formula 0 0 10 10))],
      PDict [(''id'', PInt 2), (''isOnline'', PBool True), (''latitude'', PInt 0), (''longitude'', PInt 0),
            (''distance'', PFloat 0)]],
      Inr [PDict [(''id'', PInt 1), (''isOnline'', PBool True), (''latitude'', PInt 10), (''longitude'', PInt 10),
            (''distance'', PFloat (haversine_formula 0 0 10 10))]])"
proof
  show "get_available_posts \<lparr>host_url = DEFAULT_HOST, timeout = TIMEOUT\<rparr>
     (GetReturns \<lparr>status_code = 200, text_body = ''[...]'',
        json_body = Some (PList
          [PDict [(''id'', PInt 1), (''geo'', PDict [(''latitude'', PInt 10), (''longitude'', PInt 10)]),
               (''isOnline'', PBool True)],
           PDict [(''id'', PInt 2), (''geo'', PDict [(''latitude'', PInt 0), (''longitude'', PInt 0)]),
               (''isOnline'', PBool True)]])\<rparr>)
   = Inr (PList [PDict [(''id'', PInt 1), (''isOnline'', PBool True), (''latitude'', PInt 10),
       (''longitude'', PInt 10)],
      PDict [(''id'', PInt 2), (''isOnline'', PBool True), (''latitude'', PInt 0), (''longitude'', PInt 0)]])"
    by (simp add: get_available_posts_def make_request_response flatten_all_def flatten_post_def
        dict_del_def)
  show "sort_posts_in_order_of_increasing_distance
     [PDict [(''id'', PInt 1), (''isOnline'', PBool True), (''latitude'', PInt 10),
       (''longitude'', PInt 10)],
      PDict [(''id'', PInt 2), (''isOnline'', PBool True), (''latitude'', PInt 0), (''longitude'', PInt 0)]]
     (PTuple [PInt 0, PInt 0])
     = ([PDict [(''id'', PInt 1), (''isOnline'', PBool True), (''latitude'', PInt 10), (''longitude'', PInt 10),
            (''distance'', PFloat (haversine_formula 0 0 10 10))],
      PDict [(''id'', PInt 2), (''isOnline'', PBool True), (''latitude'', PInt 0), (''longitude'', PInt 0),
            (''distance'', PFloat 0)]],
      Inr [PDict [(''id'', PInt 1), (''isOnline'', PBool True), (''latitude'', PInt 10), (''longitude'', PInt 10),
            (''distance'', PFloat (haversine_formula 0 0 10 10))]])"
    by (rule ranking_scenario)
qed

text \<open>The order [id 2, id 1] that claim C2 states is not what is returned.\<close>

theorem ranking_scenario_not_id2_id1:
  "snd (sort_posts_in_order_of_increasing_distance
     [PDict [(''id'', PInt 1), (''isOnline'', PBool True), (''latitude'', PInt 10),
       (''longitude'', PInt 10)],
      PDict [(''id'', PInt 2), (''isOnline'', PBool True), (''latitude'', PInt 0), (''longitude'', PInt 0)]]
     (PTuple [PInt 0, PInt 0]))
   \<noteq> Inr [PDict [(''id'', PInt 2), (''isOnline'', PBool True), (''latitude'', PInt 0), (''longitude'', PInt 0),
            (''distance'', PFloat 0)], PDict [(''id'', PInt 1), (''isOnline'', PBool True), (''latitude'', PInt 10), (''longitude'', PInt 10),
            (''distance'', PFloat (haversine_formula 0 0 10 10))]]"
  by (simp add: ranking_scenario)

end
